theory Spec2Isabelle
  imports Main "HOL-Library.Sublist"
begin

section \<open>Python values and exceptions\<close>

text \<open>
  The values \<^verbatim>\<open>json.loads\<close> can return, and that the \<^verbatim>\<open>mapping\<close> variable of
  \<^verbatim>\<open>prepare_croissant_builder\<close> can therefore hold: \<^verbatim>\<open>None\<close>, a \<^verbatim>\<open>bool\<close>, an
  \<^verbatim>\<open>int\<close>, a \<^verbatim>\<open>float\<close>, a \<^verbatim>\<open>str\<close>, a \<^verbatim>\<open>list\<close> or a \<^verbatim>\<open>dict\<close> with \<^verbatim>\<open>str\<close> keys.
  A \<^verbatim>\<open>float\<close> is kept as the text that was read (no floating point arithmetic is
  done anywhere in this file); a \<^verbatim>\<open>dict\<close> is an association list in insertion order
  with distinct keys. A \<^verbatim>\<open>str\<close> is a list of 8-bit characters.
\<close>

datatype pyval =
    PNone
  | PBool bool
  | PInt int
  | PFloat string
  | PStr string
  | PList "pyval list"
  | PDict "(string \<times> pyval) list"

text \<open>
  The exceptions that travel through this file. \<^verbatim>\<open>raise ValueError(msg) from e\<close> is
  \<open>ValueError msg (Some e)\<close>. \<open>OtherError\<close> stands for an exception of any other
  class, named by a label.
\<close>

datatype exn =
    JSONDecodeError string
  | ValueError string "exn option"
  | SystemExit nat
  | OtherError string

section \<open>The library function \<^verbatim>\<open>json.loads\<close>\<close>

text \<open>
  \<^verbatim>\<open>json.loads\<close> belongs to the Python standard library, not to this repository.
  The theorems below about \<^verbatim>\<open>prepare_croissant_builder\<close> take the decoder as a
  parameter. The decoder defined here follows \<^verbatim>\<open>json/decoder.py\<close> and
  \<^verbatim>\<open>json/scanner.py\<close> of CPython and is what the closed examples are evaluated
  with. The message of a \<^verbatim>\<open>JSONDecodeError\<close> is abridged and kept without its position. Two
  things are outside it: a \<^verbatim>\<open>\uXXXX\<close> escape above code point 255 (the strings
  here are 8-bit), and the interpreter's own limits (nesting depth, digits of an
  integer); the first is reported as an \<open>OtherError\<close>. The recursion budget is
  one more than the length of the text, and running out of it is reported as an
  \<open>OtherError\<close> as well.
\<close>

definition dquote :: char where
  "dquote = CHR 0x22"

definition backslash :: char where
  "backslash = CHR 0x5C"

definition is_ws :: "char \<Rightarrow> bool" where
  "is_ws c = (c = CHR '' '' \<or> c = CHR 0x09 \<or> c = CHR 0x0A \<or> c = CHR 0x0D)"

definition skip_ws :: "string \<Rightarrow> string" where
  "skip_ws cs = dropWhile is_ws cs"

definition is_digit :: "char \<Rightarrow> bool" where
  "is_digit c = (48 \<le> (of_char c :: nat) \<and> (of_char c :: nat) \<le> 57)"

definition digit_val :: "char \<Rightarrow> nat" where
  "digit_val c = of_char c - 48"

definition hex_val :: "char \<Rightarrow> nat option" where
  "hex_val c =
     (let n = (of_char c :: nat) in
      if 48 \<le> n \<and> n \<le> 57 then Some (n - 48)
      else if 97 \<le> n \<and> n \<le> 102 then Some (n - 87)
      else if 65 \<le> n \<and> n \<le> 70 then Some (n - 55)
      else None)"

text \<open>The table \<^verbatim>\<open>BACKSLASH\<close> of \<^verbatim>\<open>json/decoder.py\<close>.\<close>

definition BACKSLASH :: "char \<Rightarrow> char option" where
  "BACKSLASH e =
     (if e = dquote then Some dquote
      else if e = backslash then Some backslash
      else if e = CHR ''/'' then Some CHR ''/''
      else if e = CHR ''b'' then Some (CHR 0x08)
      else if e = CHR ''f'' then Some (CHR 0x0C)
      else if e = CHR ''n'' then Some (CHR 0x0A)
      else if e = CHR ''r'' then Some (CHR 0x0D)
      else if e = CHR ''t'' then Some (CHR 0x09)
      else None)"

definition decode_uXXXX :: "char \<Rightarrow> char \<Rightarrow> char \<Rightarrow> char \<Rightarrow> nat option" where
  "decode_uXXXX a b c d =
     (case (hex_val a, hex_val b, hex_val c, hex_val d) of
        (Some p, Some q, Some r, Some s) \<Rightarrow> Some (((p * 16 + q) * 16 + r) * 16 + s)
      | _ \<Rightarrow> None)"

text \<open>
  \<^verbatim>\<open>scanstring\<close> in strict mode, entered after the opening quote: the characters up
  to the closing quote, with the escapes replaced, and the text after it. The
  accumulator holds the characters read so far, last first.
\<close>

fun scanstring :: "string \<Rightarrow> string \<Rightarrow> exn + (string \<times> string)" where
  "scanstring acc [] = Inl (JSONDecodeError ''Unterminated string starting at'')"
| "scanstring acc (c # cs) =
     (if c = dquote then Inr (rev acc, cs)
      else if c = backslash then
        (case cs of
           [] \<Rightarrow> Inl (JSONDecodeError ''Unterminated string starting at'')
         | e # es \<Rightarrow>
             if e = CHR ''u'' then
               (case es of
                  h1 # h2 # h3 # h4 # rest \<Rightarrow>
                    (case decode_uXXXX h1 h2 h3 h4 of
                       None \<Rightarrow> Inl (JSONDecodeError ''Invalid uXXXX escape'')
                     | Some n \<Rightarrow>
                         if n < 256 then scanstring (char_of n # acc) rest
                         else Inl (OtherError ''code point above 255''))
                | _ \<Rightarrow> Inl (JSONDecodeError ''Invalid uXXXX escape''))
             else
               (case BACKSLASH e of
                  None \<Rightarrow> Inl (JSONDecodeError ''Invalid escape'')
                | Some ch \<Rightarrow> scanstring (ch # acc) es))
      else if (of_char c :: nat) < 32 then
        Inl (JSONDecodeError ''Invalid control character at'')
      else scanstring (c # acc) cs)"

text \<open>
  \<^verbatim>\<open>NUMBER_RE\<close>: \<^verbatim>\<open>(-?(?:0|[1-9]\d*))(\.\d+)?([eE][-+]?\d+)?\<close>, matched at the head
  of the text. Each part returns what it matched and the text after it.
\<close>

definition match_digits :: "string \<Rightarrow> (string \<times> string) option" where
  "match_digits cs =
     (case takeWhile is_digit cs of
        [] \<Rightarrow> None
      | ds \<Rightarrow> Some (ds, dropWhile is_digit cs))"

definition match_natural :: "string \<Rightarrow> (string \<times> string) option" where
  "match_natural cs =
     (case cs of
        [] \<Rightarrow> None
      | c # r \<Rightarrow>
          if c = CHR ''0'' then Some ([c], r)
          else if is_digit c then Some (c # takeWhile is_digit r, dropWhile is_digit r)
          else None)"

definition match_integer :: "string \<Rightarrow> (string \<times> string) option" where
  "match_integer cs =
     (case cs of
        [] \<Rightarrow> None
      | c # r \<Rightarrow>
          if c = CHR ''-'' then
            (case match_natural r of None \<Rightarrow> None | Some (ds, r') \<Rightarrow> Some (c # ds, r'))
          else match_natural cs)"

definition match_frac :: "string \<Rightarrow> (string \<times> string) option" where
  "match_frac cs =
     (case cs of
        [] \<Rightarrow> None
      | c # r \<Rightarrow>
          if c = CHR ''.'' then
            (case match_digits r of None \<Rightarrow> None | Some (ds, r') \<Rightarrow> Some (c # ds, r'))
          else None)"

definition match_exp :: "string \<Rightarrow> (string \<times> string) option" where
  "match_exp cs =
     (case cs of
        [] \<Rightarrow> None
      | c # r \<Rightarrow>
          if c = CHR ''e'' \<or> c = CHR ''E'' then
            (case r of
               [] \<Rightarrow> None
             | s # r1 \<Rightarrow>
                 if s = CHR ''+'' \<or> s = CHR ''-'' then
                   (case match_digits r1 of
                      None \<Rightarrow> None
                    | Some (ds, r') \<Rightarrow> Some (c # s # ds, r'))
                 else
                   (case match_digits r of
                      None \<Rightarrow> None
                    | Some (ds, r') \<Rightarrow> Some (c # ds, r')))
          else None)"

text \<open>\<^verbatim>\<open>int(text)\<close> for a text matched by the integer part of \<^verbatim>\<open>NUMBER_RE\<close>.\<close>

definition int_of_digits :: "string \<Rightarrow> int" where
  "int_of_digits ds = int (foldl (\<lambda>n c. n * 10 + digit_val c) 0 ds)"

definition int_of_text :: "string \<Rightarrow> int" where
  "int_of_text cs =
     (case cs of
        [] \<Rightarrow> 0
      | c # r \<Rightarrow> if c = CHR ''-'' then - int_of_digits r else int_of_digits cs)"

definition match_number :: "string \<Rightarrow> (pyval \<times> string) option" where
  "match_number cs =
     (case match_integer cs of
        None \<Rightarrow> None
      | Some (i, r) \<Rightarrow>
          (case match_frac r of
             Some (f, r1) \<Rightarrow>
               (case match_exp r1 of
                  Some (e, r2) \<Rightarrow> Some (PFloat (i @ f @ e), r2)
                | None \<Rightarrow> Some (PFloat (i @ f), r1))
           | None \<Rightarrow>
               (case match_exp r of
                  Some (e, r2) \<Rightarrow> Some (PFloat (i @ e), r2)
                | None \<Rightarrow> Some (PInt (int_of_text i), r))))"

text \<open>\<^verbatim>\<open>s[idx:idx + len(w)] == w\<close>: the text after the word, when the text starts with it.\<close>

fun strip_prefix :: "string \<Rightarrow> string \<Rightarrow> string option" where
  "strip_prefix [] cs = Some cs"
| "strip_prefix (w # ws) [] = None"
| "strip_prefix (w # ws) (c # cs) = (if w = c then strip_prefix ws cs else None)"

text \<open>\<^verbatim>\<open>dict(pairs)\<close>: a later pair with the same key replaces the value in place.\<close>

fun dict_set :: "string \<Rightarrow> pyval \<Rightarrow> (string \<times> pyval) list \<Rightarrow> (string \<times> pyval) list" where
  "dict_set k v [] = [(k, v)]"
| "dict_set k v ((k', v') # d) =
     (if k = k' then (k, v) # d else (k', v') # dict_set k v d)"

definition dict_of_pairs :: "(string \<times> pyval) list \<Rightarrow> (string \<times> pyval) list" where
  "dict_of_pairs pairs = foldl (\<lambda>d (k, v). dict_set k v d) [] pairs"

text \<open>
  The scanner. \<open>scan_once\<close> reads one value at the head of the text.
  \<open>JSONObject\<close> is the loop of the function of that name, entered after the opening
  quote of a key, with the pairs read so far (last first); \<open>JSONArray\<close> is the loop
  of the function of that name, entered at a value, with the values read so far
  (last first). The first argument is the recursion budget.
\<close>

fun scan_once :: "nat \<Rightarrow> string \<Rightarrow> exn + (pyval \<times> string)"
  and JSONObject :: "nat \<Rightarrow> (string \<times> pyval) list \<Rightarrow> string \<Rightarrow> exn + (pyval \<times> string)"
  and JSONArray :: "nat \<Rightarrow> pyval list \<Rightarrow> string \<Rightarrow> exn + (pyval \<times> string)"
where
  "scan_once 0 cs = Inl (OtherError ''RecursionError'')"
| "scan_once (Suc n) [] = Inl (JSONDecodeError ''Expecting value'')"
| "scan_once (Suc n) (c # cs) =
     (if c = dquote then
        (case scanstring [] cs of
           Inl e \<Rightarrow> Inl e
         | Inr (s, r) \<Rightarrow> Inr (PStr s, r))
      else if c = CHR ''{'' then
        (case skip_ws cs of
           [] \<Rightarrow> Inl (JSONDecodeError ''Expecting property name enclosed in double quotes'')
         | d # ds \<Rightarrow>
             if d = CHR ''}'' then Inr (PDict [], ds)
             else if d = dquote then JSONObject n [] ds
             else Inl (JSONDecodeError ''Expecting property name enclosed in double quotes''))
      else if c = CHR ''['' then
        (case skip_ws cs of
           [] \<Rightarrow> JSONArray n [] []
         | d # ds \<Rightarrow>
             if d = CHR '']'' then Inr (PList [], ds)
             else JSONArray n [] (d # ds))
      else if c = CHR ''n'' \<and> strip_prefix ''null'' (c # cs) \<noteq> None then
        Inr (PNone, the (strip_prefix ''null'' (c # cs)))
      else if c = CHR ''t'' \<and> strip_prefix ''true'' (c # cs) \<noteq> None then
        Inr (PBool True, the (strip_prefix ''true'' (c # cs)))
      else if c = CHR ''f'' \<and> strip_prefix ''false'' (c # cs) \<noteq> None then
        Inr (PBool False, the (strip_prefix ''false'' (c # cs)))
      else
        (case match_number (c # cs) of
           Some (v, r) \<Rightarrow> Inr (v, r)
         | None \<Rightarrow>
             if c = CHR ''N'' \<and> strip_prefix ''NaN'' (c # cs) \<noteq> None then
               Inr (PFloat ''NaN'', the (strip_prefix ''NaN'' (c # cs)))
             else if c = CHR ''I'' \<and> strip_prefix ''Infinity'' (c # cs) \<noteq> None then
               Inr (PFloat ''Infinity'', the (strip_prefix ''Infinity'' (c # cs)))
             else if c = CHR ''-'' \<and> strip_prefix ''-Infinity'' (c # cs) \<noteq> None then
               Inr (PFloat ''-Infinity'', the (strip_prefix ''-Infinity'' (c # cs)))
             else Inl (JSONDecodeError ''Expecting value'')))"
| "JSONObject 0 pairs cs = Inl (OtherError ''RecursionError'')"
| "JSONObject (Suc n) pairs cs =
     (case scanstring [] cs of
        Inl e \<Rightarrow> Inl e
      | Inr (key, r) \<Rightarrow>
          (case skip_ws r of
             [] \<Rightarrow> Inl (JSONDecodeError ''Expecting : delimiter'')
           | d # ds \<Rightarrow>
               if d \<noteq> CHR '':'' then Inl (JSONDecodeError ''Expecting : delimiter'')
               else
                 (case scan_once (Suc n) (skip_ws ds) of
                    Inl e \<Rightarrow> Inl e
                  | Inr (v, r1) \<Rightarrow>
                      (case skip_ws r1 of
                         [] \<Rightarrow> Inl (JSONDecodeError ''Expecting , delimiter'')
                       | x # xs \<Rightarrow>
                           if x = CHR ''}'' then
                             Inr (PDict (dict_of_pairs (rev ((key, v) # pairs))), xs)
                           else if x \<noteq> CHR '','' then
                             Inl (JSONDecodeError ''Expecting , delimiter'')
                           else
                             (case skip_ws xs of
                                [] \<Rightarrow>
                                  Inl (JSONDecodeError
                                    ''Expecting property name enclosed in double quotes'')
                              | y # ys \<Rightarrow>
                                  if y = dquote then JSONObject n ((key, v) # pairs) ys
                                  else
                                    Inl (JSONDecodeError
                                      ''Expecting property name enclosed in double quotes''))))))"
| "JSONArray 0 vals cs = Inl (OtherError ''RecursionError'')"
| "JSONArray (Suc n) vals cs =
     (case scan_once (Suc n) cs of
        Inl e \<Rightarrow> Inl e
      | Inr (v, r) \<Rightarrow>
          (case skip_ws r of
             [] \<Rightarrow> Inl (JSONDecodeError ''Expecting , delimiter'')
           | x # xs \<Rightarrow>
               if x = CHR '']'' then Inr (PList (rev (v # vals)), xs)
               else if x \<noteq> CHR '','' then Inl (JSONDecodeError ''Expecting , delimiter'')
               else JSONArray n (v # vals) (skip_ws xs)))"

text \<open>
  \<^verbatim>\<open>JSONDecoder.decode\<close>: leading white space, one value, trailing white space, and
  nothing else.
\<close>

definition decode :: "string \<Rightarrow> exn + pyval" where
  "decode s =
     (case scan_once (Suc (length s)) (skip_ws s) of
        Inl e \<Rightarrow> Inl e
      | Inr (obj, r) \<Rightarrow>
          if skip_ws r = [] then Inr obj else Inl (JSONDecodeError ''Extra data''))"

definition json_loads :: "string \<Rightarrow> exn + pyval" where
  "json_loads s = decode s"

section \<open>The collaborator\<close>

text \<open>
  \<^verbatim>\<open>croissant_builder.CroissantBuilder\<close> is defined in another module. Here it is a
  parameter: a constructor taking the five keyword arguments of the call at lines
  127 to 133, and the method \<^verbatim>\<open>download_and_prepare\<close> of the object it returns.
  Both may raise, and both act on the world outside the program (network, file
  system), which is passed along as a state of type \<open>'w\<close>.
\<close>

record builder_args =
  b_jsonld :: string
  b_record_set_ids :: "string list option"
  b_file_format :: string
  b_data_dir :: string
  b_mapping :: pyval

record ('w, 'b) collaborator =
  CroissantBuilder :: "builder_args \<Rightarrow> 'w \<Rightarrow> (exn + 'b) \<times> 'w"
  download_and_prepare :: "'b \<Rightarrow> 'w \<Rightarrow> (exn + unit) \<times> 'w"

text \<open>
  The calls that leave \<^verbatim>\<open>prepare_croissant_builder\<close>, in the order they are made,
  are recorded beside its result: the call of \<^verbatim>\<open>json.loads\<close> with its argument, the
  construction of the builder with its arguments, and the call of
  \<^verbatim>\<open>download_and_prepare\<close> on the builder that was constructed.
\<close>

datatype 'b call =
    JsonLoads string
  | Construct builder_args
  | DownloadAndPrepare 'b

record ('w, 'b) outcome =
  result :: "exn + unit"
  calls :: "'b call list"
  world :: 'w

section \<open>\<^verbatim>\<open>prepare_croissant_builder\<close>\<close>

text \<open>
  Lines 98 to 135 of \<^verbatim>\<open>croissant.py\<close>. \<^verbatim>\<open>record_sets\<close> is a sequence of strings, or
  \<^verbatim>\<open>None\<close> when the flag is not given; \<^verbatim>\<open>mapping\<close> is a string or \<^verbatim>\<open>None\<close>.
  \<^verbatim>\<open>not record_sets\<close> holds for \<^verbatim>\<open>None\<close> and for the empty sequence;
  \<^verbatim>\<open>if mapping:\<close> holds for a string that is not empty. In the handler of
  \<^verbatim>\<open>JSONDecodeError\<close> the variable \<^verbatim>\<open>mapping\<close> still holds the string, since the
  assignment did not happen. An exception of \<^verbatim>\<open>json.loads\<close> of another class is not
  caught. The result \<open>Inr ()\<close> is the \<^verbatim>\<open>return\<close> of line 135.
\<close>

definition prepare_croissant_builder ::
  "(string \<Rightarrow> exn + pyval) \<Rightarrow> ('w, 'b) collaborator \<Rightarrow>
   string \<Rightarrow> string list option \<Rightarrow> string \<Rightarrow> string \<Rightarrow> string option \<Rightarrow>
   'w \<Rightarrow> ('w, 'b) outcome" where
  "prepare_croissant_builder loads collab jsonld record_sets out_file_format out_dir mapping w =
     (let record_sets' =
            (if record_sets = None \<or> record_sets = Some [] then None else record_sets);
          (parsed, cs) =
            (case mapping of
               None \<Rightarrow> (Inr PNone, [])
             | Some s \<Rightarrow>
                 if s = [] then (Inr (PStr s), [])
                 else
                   (case loads s of
                      Inr v \<Rightarrow> (Inr v, [JsonLoads s])
                    | Inl (JSONDecodeError m) \<Rightarrow>
                        (Inl (ValueError (''Error parsing mapping parameter: '' @ s)
                               (Some (JSONDecodeError m))),
                         [JsonLoads s])
                    | Inl e \<Rightarrow> (Inl e, [JsonLoads s])))
      in
        case parsed of
          Inl e \<Rightarrow> \<lparr>result = Inl e, calls = cs, world = w\<rparr>
        | Inr mapping' \<Rightarrow>
            (let args = \<lparr>b_jsonld = jsonld, b_record_set_ids = record_sets',
                         b_file_format = out_file_format, b_data_dir = out_dir,
                         b_mapping = mapping'\<rparr>
             in
               case CroissantBuilder collab args w of
                 (Inl e, w1) \<Rightarrow> \<lparr>result = Inl e, calls = cs @ [Construct args], world = w1\<rparr>
               | (Inr builder, w1) \<Rightarrow>
                   (case download_and_prepare collab builder w1 of
                      (Inl e, w2) \<Rightarrow>
                        \<lparr>result = Inl e,
                         calls = cs @ [Construct args, DownloadAndPrepare builder],
                         world = w2\<rparr>
                    | (Inr u, w2) \<Rightarrow>
                        \<lparr>result = Inr (),
                         calls = cs @ [Construct args, DownloadAndPrepare builder],
                         world = w2\<rparr>)))"

text \<open>What the recorded calls say: the arguments of every construction, and the number
  of calls of \<^verbatim>\<open>download_and_prepare\<close>.\<close>

fun constructions :: "'b call list \<Rightarrow> builder_args list" where
  "constructions [] = []"
| "constructions (JsonLoads s # cs) = constructions cs"
| "constructions (Construct a # cs) = a # constructions cs"
| "constructions (DownloadAndPrepare b # cs) = constructions cs"

fun prepares :: "'b call list \<Rightarrow> 'b list" where
  "prepares [] = []"
| "prepares (JsonLoads s # cs) = prepares cs"
| "prepares (Construct a # cs) = prepares cs"
| "prepares (DownloadAndPrepare b # cs) = b # prepares cs"

fun loads_calls :: "'b call list \<Rightarrow> string list" where
  "loads_calls [] = []"
| "loads_calls (JsonLoads s # cs) = s # loads_calls cs"
| "loads_calls (Construct a # cs) = loads_calls cs"
| "loads_calls (DownloadAndPrepare b # cs) = loads_calls cs"

text \<open>The shape the documentation of \<^verbatim>\<open>mapping\<close> asks for: a \<^verbatim>\<open>dict[str, str]\<close>.\<close>

fun is_str :: "pyval \<Rightarrow> bool" where
  "is_str (PStr s) = True"
| "is_str v = False"

fun flat_str_dict :: "pyval \<Rightarrow> bool" where
  "flat_str_dict (PDict kvs) = list_all (\<lambda>kv. is_str (snd kv)) kvs"
| "flat_str_dict v = False"

text \<open>Collaborators for the closed examples: one that never raises and counts the
  builders it constructs in the world, and one whose constructor raises.\<close>

definition quiet_builder :: "(nat, nat) collaborator" where
  "quiet_builder =
     \<lparr>CroissantBuilder = (\<lambda>args w. (Inr w, Suc w)),
      download_and_prepare = (\<lambda>b w. (Inr (), w))\<rparr>"

definition failing_constructor :: "exn \<Rightarrow> (nat, nat) collaborator" where
  "failing_constructor e =
     \<lparr>CroissantBuilder = (\<lambda>args w. (Inl e, w)),
      download_and_prepare = (\<lambda>b w. (Inr (), w))\<rparr>"

definition failing_prepare :: "exn \<Rightarrow> (nat, nat) collaborator" where
  "failing_prepare e =
     \<lparr>CroissantBuilder = (\<lambda>args w. (Inr w, Suc w)),
      download_and_prepare = (\<lambda>b w. (Inl e, w))\<rparr>"

text \<open>
  Lines 122 to 126 raise exactly when the mapping is a string that is not empty and
  \<^verbatim>\<open>json.loads\<close> raises on it; otherwise the run goes on to the collaborator.
\<close>

definition mapping_accepted :: "(string \<Rightarrow> exn + pyval) \<Rightarrow> string option \<Rightarrow> bool" where
  "mapping_accepted loads mapping =
     (case mapping of None \<Rightarrow> True | Some s \<Rightarrow> s = [] \<or> \<not> isl (loads s))"

text \<open>
  The two halves of the function on their own, for the proofs: the keyword arguments
  of the call at lines 127 to 133, given the value \<^verbatim>\<open>mapping\<close> holds by then, and
  lines 127 to 135, given the calls made before them.
\<close>

definition builder_kwargs :: "string \<Rightarrow> string list option \<Rightarrow> string \<Rightarrow> string \<Rightarrow> pyval \<Rightarrow> builder_args" where
  "builder_kwargs jsonld record_sets out_file_format out_dir mapping =
     \<lparr>b_jsonld = jsonld,
      b_record_set_ids = (if record_sets = None \<or> record_sets = Some [] then None else record_sets),
      b_file_format = out_file_format, b_data_dir = out_dir, b_mapping = mapping\<rparr>"

definition build_and_prepare ::
  "('w, 'b) collaborator \<Rightarrow> builder_args \<Rightarrow> 'b call list \<Rightarrow> 'w \<Rightarrow> ('w, 'b) outcome" where
  "build_and_prepare collab args cs w =
     (case CroissantBuilder collab args w of
        (Inl e, w1) \<Rightarrow> \<lparr>result = Inl e, calls = cs @ [Construct args], world = w1\<rparr>
      | (Inr builder, w1) \<Rightarrow>
          (case download_and_prepare collab builder w1 of
             (Inl e, w2) \<Rightarrow>
               \<lparr>result = Inl e, calls = cs @ [Construct args, DownloadAndPrepare builder], world = w2\<rparr>
           | (Inr u, w2) \<Rightarrow>
               \<lparr>result = Inr (), calls = cs @ [Construct args, DownloadAndPrepare builder], world = w2\<rparr>))"


section \<open>The command line\<close>

text \<open>
  \<^verbatim>\<open>add_parser_arguments\<close> (lines 38 to 77) declares five options on an
  \<^verbatim>\<open>argparse\<close> parser. A parser is the list of its declarations; of a declaration
  the option string, \<^verbatim>\<open>choices\<close>, \<^verbatim>\<open>nargs\<close> (absent, or \<^verbatim>\<open>'*'\<close>) and
  \<^verbatim>\<open>required\<close> are kept. The \<^verbatim>\<open>type\<close> of each option leaves the text as it is
  (\<^verbatim>\<open>str\<close>, and \<^verbatim>\<open>epath.Path\<close>, a path being modelled by its text). The enumeration
  \<^verbatim>\<open>file_adapters.FileFormat\<close> is defined in another module: the list of the values
  of its members is a parameter.
\<close>

datatype nargs = One | ZeroOrMore

record argument =
  option_string :: string
  choices :: "string list option"
  nargs :: nargs
  required :: bool

definition add_parser_arguments :: "string list \<Rightarrow> argument list \<Rightarrow> argument list" where
  "add_parser_arguments FileFormat_values parser =
     parser @
     [\<lparr>option_string = ''--jsonld'', choices = None, nargs = One, required = True\<rparr>,
      \<lparr>option_string = ''--file_format'', choices = Some FileFormat_values, nargs = One,
       required = True\<rparr>,
      \<lparr>option_string = ''--record_sets'', choices = None, nargs = ZeroOrMore, required = False\<rparr>,
      \<lparr>option_string = ''--out_dir'', choices = None, nargs = One, required = True\<rparr>,
      \<lparr>option_string = ''--mapping'', choices = None, nargs = One, required = False\<rparr>]"


text \<open>
  The attributes of the object \<^verbatim>\<open>parse_args\<close> returns for this parser. The three
  required options hold a string; \<^verbatim>\<open>record_sets\<close> is \<^verbatim>\<open>None\<close> when the flag is
  absent and the list of its arguments (possibly empty) otherwise; \<^verbatim>\<open>mapping\<close> is
  \<^verbatim>\<open>None\<close> when the flag is absent.
\<close>

record namespace =
  args_jsonld :: string
  args_file_format :: string
  args_record_sets :: "string list option"
  args_out_dir :: string
  args_mapping :: "string option"

text \<open>
  \<^verbatim>\<open>argparse\<close> belongs to the standard library. What is modelled of
  \<^verbatim>\<open>parse_args\<close> is what it does once the command line is split into options and
  their arguments: the input is the list of the options given, each with its
  arguments, in order. An option that is not declared, a number of arguments that
  \<^verbatim>\<open>nargs\<close> does not allow, an argument outside \<^verbatim>\<open>choices\<close>, or a required option
  that is absent makes \<^verbatim>\<open>parse_args\<close> print its usage and raise \<^verbatim>\<open>SystemExit(2)\<close>.
  An option given twice keeps its last arguments.
\<close>

definition check_value :: "argument \<Rightarrow> string \<Rightarrow> bool" where
  "check_value action v = (case choices action of None \<Rightarrow> True | Some cs \<Rightarrow> v \<in> set cs)"

definition accepts :: "argument list \<Rightarrow> string \<times> string list \<Rightarrow> bool" where
  "accepts parser occ =
     (case find (\<lambda>a. option_string a = fst occ) parser of
        None \<Rightarrow> False
      | Some action \<Rightarrow>
          (case nargs action of One \<Rightarrow> length (snd occ) = 1 | ZeroOrMore \<Rightarrow> True)
          \<and> list_all (check_value action) (snd occ))"

definition last_given :: "string \<Rightarrow> (string \<times> string list) list \<Rightarrow> string list option" where
  "last_given opt argv = map_of (rev argv) opt"

definition parse_args :: "argument list \<Rightarrow> (string \<times> string list) list \<Rightarrow> exn + namespace" where
  "parse_args parser argv =
     (if \<not> list_all (accepts parser) argv then Inl (SystemExit 2)
      else if list_ex (\<lambda>a. required a \<and> last_given (option_string a) argv = None) parser
        then Inl (SystemExit 2)
      else
        (case (last_given ''--jsonld'' argv, last_given ''--file_format'' argv,
               last_given ''--out_dir'' argv) of
           (Some [j], Some [f], Some [d]) \<Rightarrow>
             Inr \<lparr>args_jsonld = j, args_file_format = f,
                  args_record_sets = last_given ''--record_sets'' argv,
                  args_out_dir = d,
                  args_mapping =
                    (case last_given ''--mapping'' argv of Some [m] \<Rightarrow> Some m | _ \<Rightarrow> None)\<rparr>
         | _ \<Rightarrow> Inl (SystemExit 2)))"

text \<open>
  The handler \<^verbatim>\<open>register_subparser\<close> stores as \<^verbatim>\<open>subparser_fn\<close> (lines 87 to 95): the
  lambda that passes the parsed attributes to \<^verbatim>\<open>prepare_croissant_builder\<close>.
\<close>

definition subparser_fn ::
  "(string \<Rightarrow> exn + pyval) \<Rightarrow> ('w, 'b) collaborator \<Rightarrow> namespace \<Rightarrow> 'w \<Rightarrow> ('w, 'b) outcome" where
  "subparser_fn loads collab args w =
     prepare_croissant_builder loads collab (args_jsonld args) (args_record_sets args)
       (args_file_format args) (args_out_dir args) (args_mapping args) w"

text \<open>
  Modelled from the spec: the dispatcher that parses the command line and then calls the
  handler stored as \<^verbatim>\<open>subparser_fn\<close> is in another file of the repository. The spec
  says that argument validation rejects an invocation before the logic of this
  unit runs; so the handler runs only on what \<^verbatim>\<open>parse_args\<close> returned.
\<close>

definition build_croissant ::
  "string list \<Rightarrow> (string \<Rightarrow> exn + pyval) \<Rightarrow> ('w, 'b) collaborator \<Rightarrow>
   (string \<times> string list) list \<Rightarrow> 'w \<Rightarrow> ('w, 'b) outcome" where
  "build_croissant FileFormat_values loads collab argv w =
     (case parse_args (add_parser_arguments FileFormat_values []) argv of
        Inl e \<Rightarrow> \<lparr>result = Inl e, calls = [], world = w\<rparr>
      | Inr args \<Rightarrow> subparser_fn loads collab args w)"


section \<open>Lemmas\<close>

lemma json_loads_empty: "json_loads [] = Inl (JSONDecodeError ''Expecting value'')"
  by (simp add: json_loads_def decode_def skip_ws_def)

lemma pcb_None:
  "prepare_croissant_builder loads collab jsonld record_sets out_file_format out_dir None w =
     build_and_prepare collab (builder_kwargs jsonld record_sets out_file_format out_dir PNone) [] w"
  unfolding prepare_croissant_builder_def build_and_prepare_def builder_kwargs_def
  by (simp only: Let_def option.case prod.case sum.case)

lemma pcb_empty:
  "prepare_croissant_builder loads collab jsonld record_sets out_file_format out_dir (Some []) w =
     build_and_prepare collab (builder_kwargs jsonld record_sets out_file_format out_dir (PStr [])) [] w"
  unfolding prepare_croissant_builder_def build_and_prepare_def builder_kwargs_def
  by (simp only: Let_def option.case prod.case sum.case if_True refl)

lemma pcb_loaded:
  assumes "s \<noteq> []" and "loads s = Inr v"
  shows "prepare_croissant_builder loads collab jsonld record_sets out_file_format out_dir (Some s) w =
     build_and_prepare collab (builder_kwargs jsonld record_sets out_file_format out_dir v) [JsonLoads s] w"
  unfolding prepare_croissant_builder_def build_and_prepare_def builder_kwargs_def
  by (simp only: Let_def option.case prod.case sum.case assms if_False)

lemma pcb_decode_error:
  assumes "s \<noteq> []" and "loads s = Inl (JSONDecodeError m)"
  shows "prepare_croissant_builder loads collab jsonld record_sets out_file_format out_dir (Some s) w =
     \<lparr>result = Inl (ValueError (''Error parsing mapping parameter: '' @ s) (Some (JSONDecodeError m))),
      calls = [JsonLoads s], world = w\<rparr>"
  unfolding prepare_croissant_builder_def
  by (simp only: Let_def option.case prod.case sum.case exn.case assms if_False)

lemma pcb_other_error:
  assumes "s \<noteq> []" and "loads s = Inl e" and "\<And>m. e \<noteq> JSONDecodeError m"
  shows "prepare_croissant_builder loads collab jsonld record_sets out_file_format out_dir (Some s) w =
     \<lparr>result = Inl e, calls = [JsonLoads s], world = w\<rparr>"
proof (cases e)
  case (JSONDecodeError m)
  with assms(3)[of m] show ?thesis by simp
next
  case (ValueError x y)
  show ?thesis unfolding prepare_croissant_builder_def
    by (simp only: Let_def option.case prod.case sum.case exn.case assms(1,2) ValueError if_False)
next
  case (SystemExit n)
  show ?thesis unfolding prepare_croissant_builder_def
    by (simp only: Let_def option.case prod.case sum.case exn.case assms(1,2) SystemExit if_False)
next
  case (OtherError l)
  show ?thesis unfolding prepare_croissant_builder_def
    by (simp only: Let_def option.case prod.case sum.case exn.case assms(1,2) OtherError if_False)
qed

lemma pcb_rejected:
  assumes "s \<noteq> []" and "loads s = Inl e"
  shows "\<exists>e'. prepare_croissant_builder loads collab jsonld record_sets out_file_format out_dir (Some s) w =
     \<lparr>result = Inl e', calls = [JsonLoads s], world = w\<rparr>"
proof (cases "\<exists>m. e = JSONDecodeError m")
  case True
  then obtain m where m: "e = JSONDecodeError m" by blast
  have "prepare_croissant_builder loads collab jsonld record_sets out_file_format out_dir (Some s) w =
     \<lparr>result = Inl (ValueError (''Error parsing mapping parameter: '' @ s) (Some (JSONDecodeError m))),
      calls = [JsonLoads s], world = w\<rparr>"
    by (rule pcb_decode_error) (use assms m in simp_all)
  then show ?thesis by blast
next
  case False
  then have ne: "\<And>m. e \<noteq> JSONDecodeError m" by blast
  have "prepare_croissant_builder loads collab jsonld record_sets out_file_format out_dir (Some s) w =
     \<lparr>result = Inl e, calls = [JsonLoads s], world = w\<rparr>"
    by (rule pcb_other_error) (use assms ne in simp_all)
  then show ?thesis by blast
qed

lemma constructions_append: "constructions (xs @ ys) = constructions xs @ constructions ys"
  by (induction xs rule: constructions.induct) simp_all

lemma prepares_append: "prepares (xs @ ys) = prepares xs @ prepares ys"
  by (induction xs rule: prepares.induct) simp_all

lemma loads_calls_append: "loads_calls (xs @ ys) = loads_calls xs @ loads_calls ys"
  by (induction xs rule: loads_calls.induct) simp_all

lemma bap_constructions:
  "constructions (calls (build_and_prepare collab a cs w)) = constructions cs @ [a]"
  unfolding build_and_prepare_def
  by (simp add: constructions_append split: prod.split sum.split)

lemma bap_loads_calls:
  "loads_calls (calls (build_and_prepare collab a cs w)) = loads_calls cs"
  unfolding build_and_prepare_def
  by (simp add: loads_calls_append split: prod.split sum.split)

lemma bap_constructor_raises:
  assumes "CroissantBuilder collab a w = (Inl e, w1)"
  shows "build_and_prepare collab a cs w = \<lparr>result = Inl e, calls = cs @ [Construct a], world = w1\<rparr>"
  unfolding build_and_prepare_def by (simp add: assms)

lemma bap_prepare_raises:
  assumes "CroissantBuilder collab a w = (Inr b, w1)" and "download_and_prepare collab b w1 = (Inl e, w2)"
  shows "build_and_prepare collab a cs w =
    \<lparr>result = Inl e, calls = cs @ [Construct a, DownloadAndPrepare b], world = w2\<rparr>"
  unfolding build_and_prepare_def by (simp add: assms)


text \<open>Every run either stops at the mapping or goes on to the collaborator.\<close>

lemma pcb_cases:
  obtains (rejected) s e where "mapping = Some s" and "s \<noteq> []" and "isl (loads s)"
      and "prepare_croissant_builder loads collab jsonld record_sets out_file_format out_dir mapping w =
             \<lparr>result = Inl e, calls = [JsonLoads s], world = w\<rparr>"
  | (accepted) mv cs where "mapping_accepted loads mapping"
      and "prepare_croissant_builder loads collab jsonld record_sets out_file_format out_dir mapping w =
             build_and_prepare collab (builder_kwargs jsonld record_sets out_file_format out_dir mv) cs w"
      and "constructions cs = []" and "prepares cs = []"
      and "mapping = None \<Longrightarrow> mv = PNone \<and> cs = []"
      and "mapping = Some [] \<Longrightarrow> mv = PStr [] \<and> cs = []"
      and "\<And>s. mapping = Some s \<Longrightarrow> s \<noteq> [] \<Longrightarrow> loads s = Inr mv \<and> cs = [JsonLoads s]"
proof (cases mapping)
  case None
  show ?thesis
    by (rule accepted[of PNone "[]"]) (simp_all add: None pcb_None mapping_accepted_def)
next
  case (Some s)
  show ?thesis
  proof (cases "s = []")
    case True
    show ?thesis
      by (rule accepted[of "PStr []" "[]"]) (simp_all add: Some True pcb_empty mapping_accepted_def)
  next
    case False
    show ?thesis
    proof (cases "loads s")
      case (Inl e)
      have "\<exists>e'. prepare_croissant_builder loads collab jsonld record_sets out_file_format out_dir (Some s) w =
           \<lparr>result = Inl e', calls = [JsonLoads s], world = w\<rparr>"
        by (rule pcb_rejected) (use False Inl in simp_all)
      then obtain e' where
        "prepare_croissant_builder loads collab jsonld record_sets out_file_format out_dir (Some s) w =
           \<lparr>result = Inl e', calls = [JsonLoads s], world = w\<rparr>" by blast
      then show ?thesis
        by (intro rejected[of s e']) (simp_all add: Some False Inl)
    next
      case (Inr v)
      show ?thesis
        by (rule accepted[of v "[JsonLoads s]"])
           (simp_all add: Some False Inr pcb_loaded mapping_accepted_def)
    qed
  qed
qed

lemma find_file_format:
  "find (\<lambda>a. option_string a = ''--file_format'') (add_parser_arguments F []) =
     Some \<lparr>option_string = ''--file_format'', choices = Some F, nargs = One, required = True\<rparr>"
  by (simp add: add_parser_arguments_def)

lemma accepts_file_format:
  "accepts (add_parser_arguments F []) (''--file_format'', vs) = (length vs = 1 \<and> set vs \<subseteq> set F)"
  by (auto simp add: accepts_def find_file_format check_value_def list_all_iff)

lemma file_format_rejected:
  assumes "(''--file_format'', vs) \<in> set argv" and "v \<in> set vs" and "v \<notin> set F"
  shows "parse_args (add_parser_arguments F []) argv = Inl (SystemExit 2)"
proof -
  from assms(2,3) have "\<not> accepts (add_parser_arguments F []) (''--file_format'', vs)"
    by (auto simp: accepts_file_format)
  with assms(1) have "\<not> list_all (accepts (add_parser_arguments F [])) argv"
    by (auto simp: list_all_iff)
  then show ?thesis by (simp add: parse_args_def)
qed

lemma last_given_mem: "last_given opt argv = Some vs \<Longrightarrow> (opt, vs) \<in> set argv"
  unfolding last_given_def by (drule map_of_SomeD) simp

lemma parse_args_accepted:
  assumes "parse_args (add_parser_arguments F []) argv = Inr args"
  shows "last_given ''--file_format'' argv = Some [args_file_format args] \<and> args_file_format args \<in> set F"
proof -
  from assms have all: "list_all (accepts (add_parser_arguments F [])) argv"
    by (simp add: parse_args_def split: if_splits)
  from assms obtain f where f: "last_given ''--file_format'' argv = Some [f]" and "args_file_format args = f"
    by (auto simp: parse_args_def split: if_splits option.splits list.splits)
  moreover from last_given_mem[OF f] all have "accepts (add_parser_arguments F []) (''--file_format'', [f])"
    by (auto simp: list_all_iff)
  ultimately show ?thesis by (simp add: accepts_file_format)
qed

lemma minimal_invocation:
  assumes "v \<in> set F"
  shows "parse_args (add_parser_arguments F []) [(''--jsonld'', [j]), (''--file_format'', [v]), (''--out_dir'', [d])]
    = Inr \<lparr>args_jsonld = j, args_file_format = v, args_record_sets = None, args_out_dir = d, args_mapping = None\<rparr>"
  using assms
  by (simp add: parse_args_def add_parser_arguments_def accepts_def check_value_def last_given_def)

lemma construct_mem: "Construct a \<in> set cs \<longleftrightarrow> a \<in> set (constructions cs)"
  by (induction cs rule: constructions.induct) auto

lemma bap_prepares_le: "length (prepares (calls (build_and_prepare collab a cs w))) \<le> Suc (length (prepares cs))"
  unfolding build_and_prepare_def
  by (simp add: prepares_append split: prod.split sum.split)

section \<open>The claims\<close>

subsection \<open>C1: a mapping that is not valid JSON\<close>

text \<open>
  C1, as amended. For every mapping string that is not empty and on which
  \<^verbatim>\<open>json.loads\<close> raises \<^verbatim>\<open>JSONDecodeError\<close>, \<^verbatim>\<open>prepare_croissant_builder\<close> raises a
  \<^verbatim>\<open>ValueError\<close> whose message is \<^verbatim>\<open>Error parsing mapping parameter: \<close> followed by
  the original string (so the message contains it), with the decoding error as its
  cause. The only call made is the one of \<^verbatim>\<open>json.loads\<close>: the collaborator is neither
  constructed nor invoked, and the world is untouched.
\<close>

theorem invalid_mapping_raises_value_error:
  assumes "s \<noteq> []" and "loads s = Inl (JSONDecodeError m)"
  shows "prepare_croissant_builder loads collab jsonld record_sets out_file_format out_dir (Some s) w =
           \<lparr>result = Inl (ValueError (''Error parsing mapping parameter: '' @ s)
                            (Some (JSONDecodeError m))),
            calls = [JsonLoads s], world = w\<rparr>
         \<and> sublist s (''Error parsing mapping parameter: '' @ s)"
proof -
  have "sublist s (''Error parsing mapping parameter: '' @ s)"
    by (rule suffix_imp_sublist) (rule suffixI, rule refl)
  moreover have "prepare_croissant_builder loads collab jsonld record_sets out_file_format out_dir (Some s) w =
           \<lparr>result = Inl (ValueError (''Error parsing mapping parameter: '' @ s)
                            (Some (JSONDecodeError m))),
            calls = [JsonLoads s], world = w\<rparr>"
    by (rule pcb_decode_error) (use assms in simp_all)
  ultimately show ?thesis by (rule conjI[rotated])
qed

text \<open>The example of the spec, \<^verbatim>\<open>{not valid}\<close>.\<close>

theorem invalid_mapping_raises_value_error_witness:
  "''{not valid}'' \<noteq> []
   \<and> json_loads ''{not valid}'' =
       Inl (JSONDecodeError ''Expecting property name enclosed in double quotes'')
   \<and> prepare_croissant_builder json_loads quiet_builder ''/tmp/d.json'' None ''tfrecord''
       ''/tmp/out'' (Some ''{not valid}'') 0 =
       \<lparr>result = Inl (ValueError ''Error parsing mapping parameter: {not valid}''
                 (Some (JSONDecodeError ''Expecting property name enclosed in double quotes''))),
        calls = [JsonLoads ''{not valid}''], world = 0\<rparr>
   \<and> sublist ''{not valid}'' ''Error parsing mapping parameter: {not valid}''"
proof -
  have h1: "''{not valid}'' \<noteq> []" by simp
  have h2: "json_loads ''{not valid}'' =
       Inl (JSONDecodeError ''Expecting property name enclosed in double quotes'')"
    by code_simp
  from invalid_mapping_raises_value_error
         [where loads = json_loads and collab = quiet_builder and jsonld = "''/tmp/d.json''"
            and record_sets = None and out_file_format = "''tfrecord''"
            and out_dir = "''/tmp/out''" and w = "0::nat"
            and s = "''{not valid}''"
            and m = "''Expecting property name enclosed in double quotes''", OF h1 h2]
  show ?thesis using h1 h2 by simp
qed

text \<open>
  C1 as stated fails at the empty string. It is not valid JSON, yet line 122 skips the
  parse for it: no error is raised and the collaborator is constructed and run.
\<close>

theorem empty_mapping_is_not_rejected:
  "json_loads [] = Inl (JSONDecodeError ''Expecting value'')
   \<and> prepare_croissant_builder json_loads quiet_builder ''/tmp/d.json'' None ''tfrecord''
       ''/tmp/out'' (Some []) 0 =
       \<lparr>result = Inr (),
        calls = [Construct \<lparr>b_jsonld = ''/tmp/d.json'', b_record_set_ids = None,
                            b_file_format = ''tfrecord'', b_data_dir = ''/tmp/out'',
                            b_mapping = PStr []\<rparr>,
                 DownloadAndPrepare 0],
        world = 1\<rparr>"
  by (simp add: json_loads_empty pcb_empty build_and_prepare_def builder_kwargs_def quiet_builder_def)

subsection \<open>C2: no record sets\<close>



subsection \<open>C9: some record sets\<close>



subsection \<open>C3: the shape of the parsed mapping\<close>

text \<open>
  C3, as amended. For every supplied mapping string, \<^verbatim>\<open>prepare_croissant_builder\<close>
  raises an error of its own, with the collaborator not constructed, exactly when the
  string is not empty and \<^verbatim>\<open>json.loads\<close> raises on it. A string that
  \<^verbatim>\<open>json.loads\<close> accepts is never rejected for its shape: whatever value it parses to,
  the run continues with the construction of the collaborator on that value.
\<close>

theorem only_decoding_failures_are_rejected:
  "(let out = prepare_croissant_builder loads collab jsonld record_sets out_file_format out_dir (Some s) w
    in (constructions (calls out) = []) = (s \<noteq> [] \<and> isl (loads s))
     \<and> (s \<noteq> [] \<and> isl (loads s) \<longrightarrow> isl (result out) \<and> calls out = [JsonLoads s])
     \<and> (\<forall>v. s \<noteq> [] \<and> loads s = Inr v \<longrightarrow>
           out = build_and_prepare collab
                   (builder_kwargs jsonld record_sets out_file_format out_dir v) [JsonLoads s] w))"
proof (cases rule: pcb_cases[of "Some s" loads collab jsonld record_sets out_file_format out_dir w])
  case (rejected s' e)
  then show ?thesis by (auto simp: Let_def)
next
  case (accepted mv cs)
  then show ?thesis
    by (auto simp: Let_def bap_constructions mapping_accepted_def pcb_loaded)
qed

text \<open>An unterminated list is rejected; the number \<^verbatim>\<open>3\<close> is accepted and forwarded.\<close>

theorem only_decoding_failures_are_rejected_witness:
  "(let out = prepare_croissant_builder json_loads quiet_builder ''/tmp/d.json'' None ''tfrecord''
                ''/tmp/out'' (Some ''[1, 2'') 0
    in constructions (calls out) = [] \<and> isl (result out) \<and> calls out = [JsonLoads ''[1, 2''])
   \<and> isl (json_loads ''[1, 2'')
   \<and> json_loads ''3'' = Inr (PInt 3)
   \<and> (let out = prepare_croissant_builder json_loads quiet_builder ''/tmp/d.json'' None ''tfrecord''
                ''/tmp/out'' (Some ''3'') 0
      in constructions (calls out) =
           [\<lparr>b_jsonld = ''/tmp/d.json'', b_record_set_ids = None, b_file_format = ''tfrecord'',
             b_data_dir = ''/tmp/out'', b_mapping = PInt 3\<rparr>] \<and> result out = Inr ())"
proof -
  have h1: "isl (json_loads ''[1, 2'')" by code_simp
  have h2: "json_loads ''3'' = Inr (PInt 3)" by code_simp
  note a = only_decoding_failures_are_rejected
         [where loads = json_loads and collab = quiet_builder and jsonld = "''/tmp/d.json''"
            and record_sets = None and out_file_format = "''tfrecord''"
            and out_dir = "''/tmp/out''" and w = "0::nat" and s = "''[1, 2''"]
  note b = only_decoding_failures_are_rejected
         [where loads = json_loads and collab = quiet_builder and jsonld = "''/tmp/d.json''"
            and record_sets = None and out_file_format = "''tfrecord''"
            and out_dir = "''/tmp/out''" and w = "0::nat" and s = "''3''"]
  from a b h1 h2 show ?thesis
    by (simp add: Let_def build_and_prepare_def builder_kwargs_def quiet_builder_def)
qed

text \<open>
  C3 as stated fails at \<^verbatim>\<open>[1, 2]\<close>: it parses to a list, which is not a flat mapping of
  string to string, and yet no error is raised and the collaborator is constructed
  with the list and run.
\<close>

theorem json_list_mapping_is_forwarded:
  "json_loads ''[1, 2]'' = Inr (PList [PInt 1, PInt 2])
   \<and> \<not> flat_str_dict (PList [PInt 1, PInt 2])
   \<and> prepare_croissant_builder json_loads quiet_builder ''/tmp/d.json'' None ''tfrecord''
       ''/tmp/out'' (Some ''[1, 2]'') 0 =
       \<lparr>result = Inr (),
        calls = [JsonLoads ''[1, 2]'',
                 Construct \<lparr>b_jsonld = ''/tmp/d.json'', b_record_set_ids = None,
                            b_file_format = ''tfrecord'', b_data_dir = ''/tmp/out'',
                            b_mapping = PList [PInt 1, PInt 2]\<rparr>,
                 DownloadAndPrepare 0],
        world = 1\<rparr>"
proof -
  have h: "json_loads ''[1, 2]'' = Inr (PList [PInt 1, PInt 2])" by code_simp
  have ne: "''[1, 2]'' \<noteq> []" by simp
  show ?thesis
    by (simp add: h pcb_loaded[where loads = json_loads, OF ne h] build_and_prepare_def builder_kwargs_def quiet_builder_def)
qed

subsection \<open>C4: a flat mapping of string to string\<close>



subsection \<open>C8: the empty mapping string\<close>

text \<open>
  C8. When \<^verbatim>\<open>mapping\<close> is the empty string, \<^verbatim>\<open>json.loads\<close> is not called, the function
  raises nothing of its own (its outcome is that of constructing and running the
  collaborator), and the collaborator is constructed with \<^verbatim>\<open>mapping\<close> equal to the
  empty string itself, not \<^verbatim>\<open>None\<close> and not a parsed value.
\<close>

theorem empty_mapping_forwarded_unparsed:
  "(let out = prepare_croissant_builder loads collab jsonld record_sets out_file_format out_dir (Some []) w
    in out = build_and_prepare collab
               (builder_kwargs jsonld record_sets out_file_format out_dir (PStr [])) [] w
     \<and> loads_calls (calls out) = []
     \<and> constructions (calls out) = [builder_kwargs jsonld record_sets out_file_format out_dir (PStr [])]
     \<and> b_mapping (builder_kwargs jsonld record_sets out_file_format out_dir (PStr [])) = PStr [])"
  by (simp add: Let_def pcb_empty bap_constructions bap_loads_calls builder_kwargs_def)

text \<open>With a decoder that would raise on every text, the run still completes.\<close>

theorem empty_mapping_forwarded_unparsed_witness:
  "(let out = prepare_croissant_builder (\<lambda>s. Inl (OtherError ''never called'')) quiet_builder
                ''/tmp/d.json'' (Some [''rs'']) ''riegeli'' ''/tmp/out'' (Some []) 7
    in result out = Inr ()
     \<and> calls out =
         [Construct \<lparr>b_jsonld = ''/tmp/d.json'', b_record_set_ids = Some [''rs''],
                     b_file_format = ''riegeli'', b_data_dir = ''/tmp/out'', b_mapping = PStr []\<rparr>,
          DownloadAndPrepare 7])"
  using empty_mapping_forwarded_unparsed
         [where loads = "\<lambda>s. Inl (OtherError ''never called'')" and collab = quiet_builder
            and jsonld = "''/tmp/d.json''" and record_sets = "Some [''rs'']"
            and out_file_format = "''riegeli''" and out_dir = "''/tmp/out''" and w = "7::nat"]
  by (simp add: Let_def build_and_prepare_def builder_kwargs_def quiet_builder_def)

subsection \<open>C10: valid JSON of another shape\<close>

text \<open>
  C10. For every mapping string that is not empty and that \<^verbatim>\<open>json.loads\<close> decodes to a
  value that is not a flat mapping of string to string, the function raises no error
  of its own (an error of the run, if any, is one the collaborator raised) and the
  collaborator is constructed with the decoded value as it is.
\<close>

theorem non_flat_json_forwarded_as_is:
  assumes "s \<noteq> []" and "loads s = Inr v" and "\<not> flat_str_dict v"
  shows "(let out = prepare_croissant_builder loads collab jsonld record_sets out_file_format out_dir (Some s) w
          in out = build_and_prepare collab
                     (builder_kwargs jsonld record_sets out_file_format out_dir v) [JsonLoads s] w
           \<and> constructions (calls out) = [builder_kwargs jsonld record_sets out_file_format out_dir v]
           \<and> b_mapping (builder_kwargs jsonld record_sets out_file_format out_dir v) = v
           \<and> (\<forall>e. result out = Inl e \<longrightarrow>
                 fst (CroissantBuilder collab
                        (builder_kwargs jsonld record_sets out_file_format out_dir v) w) = Inl e
                 \<or> (\<exists>b w1. CroissantBuilder collab
                        (builder_kwargs jsonld record_sets out_file_format out_dir v) w = (Inr b, w1)
                      \<and> fst (download_and_prepare collab b w1) = Inl e)))"
proof -
  have eq: "prepare_croissant_builder loads collab jsonld record_sets out_file_format out_dir (Some s) w
     = build_and_prepare collab (builder_kwargs jsonld record_sets out_file_format out_dir v) [JsonLoads s] w"
    by (rule pcb_loaded) (use assms in simp_all)
  have "\<forall>e. result (build_and_prepare collab (builder_kwargs jsonld record_sets out_file_format out_dir v) [JsonLoads s] w) = Inl e \<longrightarrow>
                 fst (CroissantBuilder collab
                        (builder_kwargs jsonld record_sets out_file_format out_dir v) w) = Inl e
                 \<or> (\<exists>b w1. CroissantBuilder collab
                        (builder_kwargs jsonld record_sets out_file_format out_dir v) w = (Inr b, w1)
                      \<and> fst (download_and_prepare collab b w1) = Inl e)"
    unfolding build_and_prepare_def
    by (auto split: prod.splits sum.splits)
  with eq show ?thesis
    by (simp add: Let_def bap_constructions builder_kwargs_def)
qed

text \<open>A nested object.\<close>

theorem non_flat_json_forwarded_as_is_witness:
  \<open>''{"a": {"b": "c"}}'' \<noteq> []
   \<and> json_loads ''{"a": {"b": "c"}}'' = Inr (PDict [(''a'', PDict [(''b'', PStr ''c'')])])
   \<and> \<not> flat_str_dict (PDict [(''a'', PDict [(''b'', PStr ''c'')])])
   \<and> (let out = prepare_croissant_builder json_loads quiet_builder ''/tmp/d.json'' None ''tfrecord''
                ''/tmp/out'' (Some ''{"a": {"b": "c"}}'') 0
      in result out = Inr ()
       \<and> constructions (calls out) =
           [\<lparr>b_jsonld = ''/tmp/d.json'', b_record_set_ids = None, b_file_format = ''tfrecord'',
             b_data_dir = ''/tmp/out'',
             b_mapping = PDict [(''a'', PDict [(''b'', PStr ''c'')])]\<rparr>])\<close>
proof -
  have h1: \<open>''{"a": {"b": "c"}}'' \<noteq> []\<close> by simp
  have h2: \<open>json_loads ''{"a": {"b": "c"}}'' = Inr (PDict [(''a'', PDict [(''b'', PStr ''c'')])])\<close>
    by code_simp
  have h3: "\<not> flat_str_dict (PDict [(''a'', PDict [(''b'', PStr ''c'')])])" by simp
  from non_flat_json_forwarded_as_is
         [where loads = json_loads and collab = quiet_builder and jsonld = "''/tmp/d.json''"
            and record_sets = None and out_file_format = "''tfrecord''"
            and out_dir = "''/tmp/out''" and w = "0::nat", OF h1 h2 h3]
  show ?thesis using h1 h2 h3
    by (simp add: Let_def build_and_prepare_def builder_kwargs_def quiet_builder_def)
qed

subsection \<open>C5: errors of the collaborator\<close>

text \<open>
  C5. Whenever the collaborator is constructed, with arguments \<open>a\<close>: if the
  constructor raises \<open>e\<close>, the function raises that same \<open>e\<close>, leaves the world as
  the constructor left it, and neither constructs again nor calls
  \<^verbatim>\<open>download_and_prepare\<close>; if the constructor returns a builder and
  \<^verbatim>\<open>download_and_prepare\<close> raises \<open>e\<close>, the function raises that same \<open>e\<close>, leaves the
  world as that call left it, and has constructed once and called
  \<^verbatim>\<open>download_and_prepare\<close> once. Nothing is caught, wrapped, retried or suppressed.
\<close>

theorem collaborator_errors_propagate:
  assumes "Construct a \<in> set (calls (prepare_croissant_builder loads collab jsonld record_sets out_file_format out_dir mapping w))"
  shows "(let out = prepare_croissant_builder loads collab jsonld record_sets out_file_format out_dir mapping w
          in (\<forall>e w1. CroissantBuilder collab a w = (Inl e, w1) \<longrightarrow>
                result out = Inl e \<and> world out = w1
                \<and> constructions (calls out) = [a] \<and> prepares (calls out) = [])
           \<and> (\<forall>b e w1 w2. CroissantBuilder collab a w = (Inr b, w1)
                  \<and> download_and_prepare collab b w1 = (Inl e, w2) \<longrightarrow>
                result out = Inl e \<and> world out = w2
                \<and> constructions (calls out) = [a] \<and> prepares (calls out) = [b]))"
proof (cases rule: pcb_cases[of mapping loads collab jsonld record_sets out_file_format out_dir w])
  case (rejected s e)
  with assms show ?thesis by simp
next
  case (accepted mv cs)
  let ?k = "builder_kwargs jsonld record_sets out_file_format out_dir mv"
  from assms accepted(2,3) have a: "a = ?k"
    by (simp add: construct_mem bap_constructions)
  have 1: "\<And>e w1. CroissantBuilder collab ?k w = (Inl e, w1) \<Longrightarrow>
      build_and_prepare collab ?k cs w = \<lparr>result = Inl e, calls = cs @ [Construct ?k], world = w1\<rparr>"
    by (rule bap_constructor_raises)
  have 2: "\<And>b e w1 w2. CroissantBuilder collab ?k w = (Inr b, w1) \<Longrightarrow>
      download_and_prepare collab b w1 = (Inl e, w2) \<Longrightarrow>
      build_and_prepare collab ?k cs w =
        \<lparr>result = Inl e, calls = cs @ [Construct ?k, DownloadAndPrepare b], world = w2\<rparr>"
    by (rule bap_prepare_raises)
  show ?thesis
    unfolding Let_def accepted(2) a
    using 1 2 accepted(3,4)
    by (simp add: constructions_append prepares_append)
qed

text \<open>A constructor that raises, and a \<^verbatim>\<open>download_and_prepare\<close> that raises.\<close>

theorem collaborator_errors_propagate_witness:
  "(let out = prepare_croissant_builder json_loads
                (failing_constructor (OtherError ''FileNotFoundError'')) ''/tmp/d.json'' None
                ''tfrecord'' ''/tmp/out'' None 0
    in result out = Inl (OtherError ''FileNotFoundError'') \<and> world out = 0
       \<and> prepares (calls out) = [])
   \<and> (let out = prepare_croissant_builder json_loads
                (failing_prepare (ValueError ''unknown record set'' None)) ''/tmp/d.json'' None
                ''tfrecord'' ''/tmp/out'' None 0
    in result out = Inl (ValueError ''unknown record set'' None) \<and> world out = 1
       \<and> prepares (calls out) = [0])"
proof -
  let ?a = "\<lparr>b_jsonld = ''/tmp/d.json'', b_record_set_ids = None, b_file_format = ''tfrecord'',
             b_data_dir = ''/tmp/out'', b_mapping = PNone\<rparr>"
  have h1: "Construct ?a \<in> set (calls (prepare_croissant_builder json_loads
                (failing_constructor (OtherError ''FileNotFoundError'')) ''/tmp/d.json'' None
                ''tfrecord'' ''/tmp/out'' None 0))"
    by (simp add: pcb_None build_and_prepare_def builder_kwargs_def failing_constructor_def)
  have h2: "Construct ?a \<in> set (calls (prepare_croissant_builder json_loads
                (failing_prepare (ValueError ''unknown record set'' None)) ''/tmp/d.json'' None
                ''tfrecord'' ''/tmp/out'' None 0))"
    by (simp add: pcb_None build_and_prepare_def builder_kwargs_def failing_prepare_def)
  have c1: "CroissantBuilder (failing_constructor (OtherError ''FileNotFoundError'')) ?a 0
              = (Inl (OtherError ''FileNotFoundError''), 0)"
    by (simp add: failing_constructor_def)
  have c2: "CroissantBuilder (failing_prepare (ValueError ''unknown record set'' None)) ?a 0
              = (Inr 0, 1)"
       "download_and_prepare (failing_prepare (ValueError ''unknown record set'' None)) 0 1
              = (Inl (ValueError ''unknown record set'' None), 1)"
    by (simp_all add: failing_prepare_def)
  from collaborator_errors_propagate[OF h1] collaborator_errors_propagate[OF h2] c1 c2
  show ?thesis by (simp add: Let_def)
qed

subsection \<open>C6: a valid invocation\<close>



subsection \<open>C7: the file format\<close>

text \<open>
  C7. An invocation that gives \<^verbatim>\<open>--file_format\<close> a value outside the enumeration is
  rejected by the argument parser (\<^verbatim>\<open>SystemExit(2)\<close>) with no call made, so before
  \<^verbatim>\<open>prepare_croissant_builder\<close> runs. An invocation the parser accepts has its last
  \<^verbatim>\<open>--file_format\<close> value inside the enumeration and forwards it as
  \<^verbatim>\<open>out_file_format\<close>; and for every value inside the enumeration the invocation
  with the three required options is accepted and forwards it.
\<close>

theorem file_format_outside_choices_rejected:
  "(\<forall>vs v. (''--file_format'', vs) \<in> set argv \<and> v \<in> set vs \<and> v \<notin> set FileFormat_values \<longrightarrow>
        build_croissant FileFormat_values loads collab argv w =
          \<lparr>result = Inl (SystemExit 2), calls = [], world = w\<rparr>)
   \<and> (\<forall>args. parse_args (add_parser_arguments FileFormat_values []) argv = Inr args \<longrightarrow>
        last_given ''--file_format'' argv = Some [args_file_format args]
        \<and> args_file_format args \<in> set FileFormat_values
        \<and> build_croissant FileFormat_values loads collab argv w =
            prepare_croissant_builder loads collab (args_jsonld args) (args_record_sets args)
              (args_file_format args) (args_out_dir args) (args_mapping args) w)
   \<and> (\<forall>v j d. v \<in> set FileFormat_values \<longrightarrow>
        build_croissant FileFormat_values loads collab
          [(''--jsonld'', [j]), (''--file_format'', [v]), (''--out_dir'', [d])] w =
          prepare_croissant_builder loads collab j None v d None w)"
proof (intro conjI allI impI)
  fix vs v
  assume "(''--file_format'', vs) \<in> set argv \<and> v \<in> set vs \<and> v \<notin> set FileFormat_values"
  then have "parse_args (add_parser_arguments FileFormat_values []) argv = Inl (SystemExit 2)"
    by (auto intro: file_format_rejected)
  then show "build_croissant FileFormat_values loads collab argv w =
          \<lparr>result = Inl (SystemExit 2), calls = [], world = w\<rparr>"
    by (simp add: build_croissant_def)
next
  fix args
  assume p: "parse_args (add_parser_arguments FileFormat_values []) argv = Inr args"
  from parse_args_accepted[OF p]
  show "last_given ''--file_format'' argv = Some [args_file_format args]"
    and "args_file_format args \<in> set FileFormat_values" by simp_all
  from p show "build_croissant FileFormat_values loads collab argv w =
            prepare_croissant_builder loads collab (args_jsonld args) (args_record_sets args)
              (args_file_format args) (args_out_dir args) (args_mapping args) w"
    by (simp add: build_croissant_def subparser_fn_def)
next
  fix v j d
  assume "v \<in> set FileFormat_values"
  from minimal_invocation[OF this, of j d]
  show "build_croissant FileFormat_values loads collab
          [(''--jsonld'', [j]), (''--file_format'', [v]), (''--out_dir'', [d])] w =
          prepare_croissant_builder loads collab j None v d None w"
    by (simp add: build_croissant_def subparser_fn_def)
qed

text \<open>With three format names: \<^verbatim>\<open>csv\<close> is rejected, \<^verbatim>\<open>riegeli\<close> is forwarded.\<close>

theorem file_format_outside_choices_rejected_witness:
  "build_croissant [''tfrecord'', ''riegeli'', ''array_record''] json_loads quiet_builder
     [(''--jsonld'', [''/tmp/d.json'']), (''--file_format'', [''csv'']), (''--out_dir'', [''/tmp/out''])] 0
     = \<lparr>result = Inl (SystemExit 2), calls = [], world = 0\<rparr>
   \<and> build_croissant [''tfrecord'', ''riegeli'', ''array_record''] json_loads quiet_builder
     [(''--jsonld'', [''/tmp/d.json'']), (''--file_format'', [''riegeli'']), (''--out_dir'', [''/tmp/out''])] 0
     = \<lparr>result = Inr (),
        calls = [Construct \<lparr>b_jsonld = ''/tmp/d.json'', b_record_set_ids = None,
                            b_file_format = ''riegeli'', b_data_dir = ''/tmp/out'',
                            b_mapping = PNone\<rparr>,
                 DownloadAndPrepare 0],
        world = 1\<rparr>"
proof -
  note t = file_format_outside_choices_rejected
      [where FileFormat_values = "[''tfrecord'', ''riegeli'', ''array_record'']"
         and loads = json_loads and collab = quiet_builder and w = "0::nat"
         and argv = "[(''--jsonld'', [''/tmp/d.json'']), (''--file_format'', [''csv'']),
                      (''--out_dir'', [''/tmp/out''])]"]
  from t have a: "build_croissant [''tfrecord'', ''riegeli'', ''array_record''] json_loads quiet_builder
     [(''--jsonld'', [''/tmp/d.json'']), (''--file_format'', [''csv'']), (''--out_dir'', [''/tmp/out''])] 0
     = \<lparr>result = Inl (SystemExit 2), calls = [], world = 0\<rparr>"
    by simp
  from t have b: "build_croissant [''tfrecord'', ''riegeli'', ''array_record''] json_loads quiet_builder
     [(''--jsonld'', [''/tmp/d.json'']), (''--file_format'', [''riegeli'']), (''--out_dir'', [''/tmp/out''])] 0
     = prepare_croissant_builder json_loads quiet_builder ''/tmp/d.json'' None ''riegeli'' ''/tmp/out'' None 0"
    by simp
  show ?thesis
    unfolding a b
    by (simp add: pcb_None build_and_prepare_def builder_kwargs_def quiet_builder_def)
qed

end
